theory Spec2Isabelle
  imports Complex_Main
begin

section \<open>JavaScript values the panels handle\<close>

text \<open>
  A parsed JSON document. Numbers are finite doubles, hence rationals; no handler computes
  with them. An object is kept as the key/value sequence of the document; \<open>JSON.parse\<close>
  lets a later duplicate key win, which \<open>get_own\<close> below respects.
\<close>

datatype json =
    JNull
  | JBool bool
  | JNum rat
  | JStr string
  | JArr "json list"
  | JObj "(string \<times> json) list"

text \<open>The errors a promise chain of the panels can meet.\<close>

datatype js_error =
    TypeError
  | ReferenceError
  | SyntaxError
  | TimeoutError
  | HttpError nat
  | NetworkError

text \<open>How a promise settles.\<close>

datatype 'a settled = Rejected js_error | Fulfilled 'a

text \<open>
  \<open>res.json()\<close> either rejects (the body is not JSON) or fulfils with the parsed
  document. The status of a response is carried along; the camera panels never read it.
\<close>

record response =
  status :: nat
  json_body :: "json settled"

type_synonym fetch_result = "response settled"

text \<open>\<open>o.key\<close> for an own property of a parsed object (the last duplicate wins).\<close>

definition get_own :: "(string \<times> json) list \<Rightarrow> string \<Rightarrow> json option" where
  "get_own kvs key = map_of (rev kvs) key"

text \<open>
  \<open>v.key\<close> on a parsed value, for a key that no prototype defines: reading a property of
  \<open>null\<close> throws a TypeError, an object gives its own property or \<open>undefined\<close>
  (\<open>None\<close>), every other value gives \<open>undefined\<close>.
\<close>

fun get_prop :: "json \<Rightarrow> string \<Rightarrow> js_error + json option" where
  "get_prop JNull key = Inl TypeError"
| "get_prop (JObj kvs) key = Inr (get_own kvs key)"
| "get_prop v key = Inr None"

text \<open>A template literal \<open>${v}\<close> of a variable holding a string or \<open>undefined\<close>.\<close>

fun template :: "string option \<Rightarrow> string" where
  "template None = ''undefined''"
| "template (Some s) = s"

subsection \<open>\<open>btoa\<close>\<close>

definition b64_alphabet :: string where
  "b64_alphabet = ''ABCDEFGHIJKLMNOPQRSTUVWXYZabcdefghijklmnopqrstuvwxyz0123456789+/''"

definition b64_char :: "nat \<Rightarrow> char" where
  "b64_char n = b64_alphabet ! n"

fun btoa_bytes :: "nat list \<Rightarrow> string" where
  "btoa_bytes [] = []"
| "btoa_bytes [a] =
     [b64_char (a div 4), b64_char ((a mod 4) * 16), CHR ''='', CHR ''='']"
| "btoa_bytes [a, b] =
     [b64_char (a div 4), b64_char ((a mod 4) * 16 + b div 16),
      b64_char ((b mod 16) * 4), CHR ''='']"
| "btoa_bytes (a # b # c # rest) =
     [b64_char (a div 4), b64_char ((a mod 4) * 16 + b div 16),
      b64_char ((b mod 16) * 4 + c div 64), b64_char (c mod 64)] @ btoa_bytes rest"

definition btoa :: "string \<Rightarrow> string" where
  "btoa s = btoa_bytes (map of_char s)"

subsection \<open>Requests and what a handler does to the outside\<close>

record request =
  http_method :: string
  url :: string
  headers :: "(string \<times> string) list"
  timeout_ms :: "nat option"

text \<open>
  An effect on the outside world: a \<open>fetch\<close> that was issued, or a Tauri \<open>invoke\<close>,
  without arguments or with one named argument.
\<close>

datatype effect = Fetch request | Invoke string | InvokeWith string string string

text \<open>The header value every camera handler builds: \<open>`Basic ${btoa("admin:propteambestteam")}`\<close>.\<close>

definition basic_credential :: string where
  "basic_credential = ''Basic '' @ btoa ''admin:propteambestteam''"

section \<open>The server bar (src/components/server\_bar.vue)\<close>

text \<open>
  What \<open>server_status\<close> holds: a string literal, the \<open>message\<close> of the health body
  (which may be any value or \<open>undefined\<close>), or \<open>"Error fetching - " + error\<close>.
\<close>

datatype status_text =
    Literal string
  | Message "json option"
  | ErrorFetching js_error

record server_bar =
  ip_address :: string
  server_status :: status_text
  health_check_enabled :: bool
  bar_log :: "effect list"

definition server_bar_init :: server_bar where
  "server_bar_init =
     \<lparr>ip_address = '''', server_status = Literal '''', health_check_enabled = False,
      bar_log = []\<rparr>"

definition health_request :: "string \<Rightarrow> request" where
  "health_request ip =
     \<lparr>http_method = ''GET'', url = ''http://'' @ ip @ '':8000/health'', headers = [],
      timeout_ms = Some 1000\<rparr>"

text \<open>
  The synchronous part of \<open>fetchServerHealth\<close>, run by every tick of
  \<open>setInterval(fetchServerHealth, 1000)\<close>. The probe is started whether or not an
  earlier one is still pending. A \<open>fetch\<close> call reports its failures through the
  promise it returns, so the \<open>try\<close> block around it has nothing to catch; the
  failures are handled in \<open>health_settled\<close>.
\<close>

definition fetchServerHealth :: "server_bar \<Rightarrow> server_bar" where
  "fetchServerHealth s =
     (if ip_address s = '''' then s\<lparr>server_status := Literal ''Ip Not Set''\<rparr>
      else if \<not> health_check_enabled s then
        s\<lparr>server_status := Literal ''Health Check Disabled''\<rparr>
      else s\<lparr>bar_log := bar_log s @ [Fetch (health_request (ip_address s))]\<rparr>)"

text \<open>
  The health response: \<open>response.ok\<close>, \<open>response.status\<close>, and what
  \<open>response.text()\<close> followed by \<open>JSON.parse\<close> gives.
\<close>

record health_response =
  ok :: bool
  health_status :: nat
  parsed :: "json settled"

text \<open>The promise chain of the probe, run when the probe settles.\<close>

definition health_settled :: "health_response settled \<Rightarrow> server_bar \<Rightarrow> server_bar" where
  "health_settled r s =
     (case r of
        Rejected e \<Rightarrow> s\<lparr>server_status := ErrorFetching e\<rparr>
      | Fulfilled res \<Rightarrow>
          if \<not> ok res then s\<lparr>server_status := ErrorFetching (HttpError (health_status res))\<rparr>
          else (case parsed res of
                  Rejected e \<Rightarrow> s\<lparr>server_status := ErrorFetching e\<rparr>
                | Fulfilled body \<Rightarrow>
                    (case get_prop body ''message'' of
                       Inl e \<Rightarrow> s\<lparr>server_status := ErrorFetching e\<rparr>
                     | Inr m \<Rightarrow> s\<lparr>server_status := Message m\<rparr>)))"

text \<open>\<open>submitIP(ip)\<close>: \<open>invoke("submit_ip", {newIp: ip})\<close>.\<close>

definition submitIP :: "string \<Rightarrow> server_bar \<Rightarrow> server_bar" where
  "submitIP ip s = s\<lparr>bar_log := bar_log s @ [InvokeWith ''submit_ip'' ''newIp'' ip]\<rparr>"

text \<open>
  What happens to the server bar, one handler at a time: the text field and the checkbox
  write their refs through \<open>v-model\<close>, a change or submit of the form calls
  \<open>submitIP(ip_address)\<close>, the interval timer ticks, a probe settles.
\<close>

datatype bar_event =
    InputAddress string
  | InputEnabled bool
  | SubmitIP
  | Tick
  | ProbeSettled "health_response settled"

fun bar_step :: "server_bar \<Rightarrow> bar_event \<Rightarrow> server_bar" where
  "bar_step s (InputAddress a) = s\<lparr>ip_address := a\<rparr>"
| "bar_step s (InputEnabled b) = s\<lparr>health_check_enabled := b\<rparr>"
| "bar_step s SubmitIP = submitIP (ip_address s) s"
| "bar_step s Tick = fetchServerHealth s"
| "bar_step s (ProbeSettled r) = health_settled r s"

definition bar_run :: "server_bar \<Rightarrow> bar_event list \<Rightarrow> server_bar" where
  "bar_run = foldl bar_step"

section \<open>The camera panel, second implementation (src/unnamed/part\_001, lines 97--209)\<close>

text \<open>
  What \<open>text.value\<close> holds: \<open>undefined\<close>, a string literal, \<open>JSON.stringify(body)\<close>,
  or an error object caught by the promise chain.
\<close>

datatype text_value =
    Undefined
  | Str string
  | Stringified json
  | Thrown js_error

text \<open>
  The module state of a camera panel: \<open>let server_ip\<close>, \<open>const cameras = ref()\<close>,
  \<open>let arr = []\<close> (the sequence the template iterates over) and \<open>const text = ref()\<close>,
  with the calls made to the outside (\<open>issued\<close>, oldest first) and the rejections no
  handler caught (\<open>unhandled\<close>).
\<close>

record panel =
  server_ip :: "string option"
  cameras :: "json option"
  arr :: "json list"
  text_ref :: text_value
  issued :: "effect list"
  unhandled :: "js_error list"

definition panel_init :: panel where
  "panel_init =
     \<lparr>server_ip = None, cameras = None, arr = [], text_ref = Undefined, issued = [],
      unhandled = []\<rparr>"

text \<open>\<open>body.cameras.forEach(element => { arr.push(element); })\<close> on an array.\<close>

fun push_each :: "json list \<Rightarrow> json list \<Rightarrow> json list" where
  "push_each a [] = a"
| "push_each a (element # rest) = push_each (a @ [element]) rest"

text \<open>
  The synchronous part of \<open>get_list\<close>. The function has no \<open>await\<close>: it runs to its
  end before any promise callback, so \<open>camera_url\<close> is built from the \<open>server_ip\<close>
  the call finds.
\<close>

definition get_list_v2 :: "panel \<Rightarrow> panel" where
  "get_list_v2 s =
     (let s1 = s\<lparr>arr := []\<rparr>;
          s2 = s1\<lparr>issued := issued s1 @ [Invoke ''fetch_server_ip'']\<rparr>;
          s3 = s2\<lparr>text_ref := Str ''Fetching Cameras...''\<rparr>;
          camera_url = ''http://'' @ template (server_ip s3) @ '':8000/v1/cameras''
      in s3\<lparr>issued := issued s3 @
            [Fetch \<lparr>http_method = ''GET'', url = camera_url,
                    headers = [(''Authorization'', basic_credential)],
                    timeout_ms = None\<rparr>]\<rparr>)"

text \<open>\<open>invoke("fetch_server_ip").then((ip) => { server_ip = ip; })\<close>, when it resolves.\<close>

definition fetch_server_ip_then :: "string \<Rightarrow> panel \<Rightarrow> panel" where
  "fetch_server_ip_then ip s = s\<lparr>server_ip := Some ip\<rparr>"

text \<open>
  The same \<open>invoke(...).then(...)\<close> when the invoke rejects: the callback is skipped and
  nothing handles the rejection.
\<close>

definition fetch_server_ip_rejected :: "js_error \<Rightarrow> panel \<Rightarrow> panel" where
  "fetch_server_ip_rejected e s = s\<lparr>unhandled := unhandled s @ [e]\<rparr>"

text \<open>
  The callback \<open>(body) => {...}\<close>: the state it leaves and the error it throws, if any.
  \<open>forEach\<close> exists on arrays only; on \<open>undefined\<close>, \<open>null\<close> or any other parsed
  value the call throws a TypeError, after \<open>cameras.value\<close> was assigned.
\<close>

definition on_body_v2 :: "json \<Rightarrow> panel \<Rightarrow> panel \<times> js_error option" where
  "on_body_v2 body s =
     (let s1 = s\<lparr>text_ref := Stringified body\<rparr> in
      case get_prop body ''cameras'' of
        Inl e \<Rightarrow> (s1, Some e)
      | Inr c \<Rightarrow>
          (let s2 = s1\<lparr>cameras := c\<rparr> in
           case c of
             Some (JArr elements) \<Rightarrow>
               (let s3 = s2\<lparr>arr := push_each (arr s2) elements\<rparr>
                in (s3\<lparr>text_ref := Str ''Cameras Loaded Successfully''\<rparr>, None))
           | _ \<Rightarrow> (s2, Some TypeError)))"

text \<open>\<open>.catch(error => { text.value = error; })\<close>\<close>

definition on_error_v2 :: "js_error \<Rightarrow> panel \<Rightarrow> panel" where
  "on_error_v2 error s = s\<lparr>text_ref := Thrown error\<rparr>"

text \<open>
  The chain \<open>fetch(...).then((res) => res.json()).then(body => ...).catch(...)\<close>, run when
  the fetch settles. A response of any status fulfils the fetch.
\<close>

definition get_list_settled_v2 :: "fetch_result \<Rightarrow> panel \<Rightarrow> panel" where
  "get_list_settled_v2 r s =
     (case r of
        Rejected e \<Rightarrow> on_error_v2 e s
      | Fulfilled res \<Rightarrow>
          (case json_body res of
             Rejected e \<Rightarrow> on_error_v2 e s
           | Fulfilled body \<Rightarrow>
               (case on_body_v2 body s of
                  (s', None) \<Rightarrow> s'
                | (s', Some e) \<Rightarrow> on_error_v2 e s')))"

text \<open>The synchronous part of \<open>refresh_list\<close>: the reconnect POST.\<close>

definition refresh_list_v2 :: "panel \<Rightarrow> panel" where
  "refresh_list_v2 s =
     s\<lparr>issued := issued s @
         [Fetch \<lparr>http_method = ''POST'',
                 url = ''http://'' @ template (server_ip s) @ '':8000/v1/cameras/reconnect'',
                 headers = [(''Authorization'', basic_credential)],
                 timeout_ms = None\<rparr>]\<rparr>"

text \<open>
  \<open>.then(_ => { get_list(); })\<close>, run when the reconnect POST settles. The chain has no
  rejection handler: a rejected POST skips the callback and stays unhandled.
\<close>

definition refresh_list_settled_v2 :: "fetch_result \<Rightarrow> panel \<Rightarrow> panel" where
  "refresh_list_settled_v2 r s =
     (case r of
        Rejected e \<Rightarrow> s\<lparr>unhandled := unhandled s @ [e]\<rparr>
      | Fulfilled _ \<Rightarrow> get_list_v2 s)"

definition cam_right_v2 :: "string \<Rightarrow> panel \<Rightarrow> panel" where
  "cam_right_v2 ip s =
     (let s1 = s\<lparr>issued := issued s @
                 [Fetch \<lparr>http_method = ''POST'',
                         url = ''http://'' @ template (server_ip s) @ '':8000/v1/camera?ip='' @ ip
                               @ ''&x_movement=-0.2&y_movement=0'',
                         headers = [(''Authorization'', basic_credential)],
                         timeout_ms = None\<rparr>]\<rparr>
      in s1\<lparr>text_ref := Str ''t''\<rparr>)"

definition cam_left_v2 :: "string \<Rightarrow> panel \<Rightarrow> panel" where
  "cam_left_v2 ip s =
     s\<lparr>issued := issued s @
         [Fetch \<lparr>http_method = ''POST'',
                 url = ''http://'' @ template (server_ip s) @ '':8000/v1/camera?ip='' @ ip
                       @ ''&x_movement=0.2&y_movement=0'',
                 headers = [(''Authorization'', basic_credential)],
                 timeout_ms = None\<rparr>]\<rparr>"

definition cam_up_v2 :: "string \<Rightarrow> panel \<Rightarrow> panel" where
  "cam_up_v2 ip s =
     s\<lparr>issued := issued s @
         [Fetch \<lparr>http_method = ''POST'',
                 url = ''http://'' @ template (server_ip s) @ '':8000/v1/camera?ip='' @ ip
                       @ ''&x_movement=0&y_movement=0.2'',
                 headers = [(''Authorization'', basic_credential)],
                 timeout_ms = None\<rparr>]\<rparr>"

definition cam_down_v2 :: "string \<Rightarrow> panel \<Rightarrow> panel" where
  "cam_down_v2 ip s =
     s\<lparr>issued := issued s @
         [Fetch \<lparr>http_method = ''POST'',
                 url = ''http://'' @ template (server_ip s) @ '':8000/v1/camera?ip='' @ ip
                       @ ''&x_movement=0&y_movement=-0.2'',
                 headers = [(''Authorization'', basic_credential)],
                 timeout_ms = None\<rparr>]\<rparr>"

text \<open>
  The pan handlers chain nothing on their \<open>fetch\<close>: a response of any status changes
  nothing, a rejection stays unhandled.
\<close>

definition pan_settled :: "fetch_result \<Rightarrow> panel \<Rightarrow> panel" where
  "pan_settled r s =
     (case r of
        Rejected e \<Rightarrow> s\<lparr>unhandled := unhandled s @ [e]\<rparr>
      | Fulfilled res \<Rightarrow> s)"

text \<open>
  The panel is event driven: button clicks and settling promises run one handler each, to
  completion, in the order the event loop delivers them.
\<close>

datatype event =
    GetList
  | RefreshList
  | ServerIpResolved string
  | ServerIpRejected js_error
  | GetListSettled fetch_result
  | ReconnectSettled fetch_result
  | CamRight string
  | CamLeft string
  | CamUp string
  | CamDown string
  | PanSettled fetch_result

fun step_v2 :: "panel \<Rightarrow> event \<Rightarrow> panel" where
  "step_v2 s GetList = get_list_v2 s"
| "step_v2 s RefreshList = refresh_list_v2 s"
| "step_v2 s (ServerIpResolved ip) = fetch_server_ip_then ip s"
| "step_v2 s (GetListSettled r) = get_list_settled_v2 r s"
| "step_v2 s (ReconnectSettled r) = refresh_list_settled_v2 r s"
| "step_v2 s (CamRight ip) = cam_right_v2 ip s"
| "step_v2 s (CamLeft ip) = cam_left_v2 ip s"
| "step_v2 s (CamUp ip) = cam_up_v2 ip s"
| "step_v2 s (CamDown ip) = cam_down_v2 ip s"
| "step_v2 s (ServerIpRejected e) = fetch_server_ip_rejected e s"
| "step_v2 s (PanSettled r) = pan_settled r s"

definition run_v2 :: "panel \<Rightarrow> event list \<Rightarrow> panel" where
  "run_v2 = foldl step_v2"

section \<open>The camera panel, first implementation (src/unnamed/part\_001, lines 1--96)\<close>

text \<open>
  This file declares \<open>server_ip\<close>, \<open>cameras\<close> and \<open>arr\<close> but no \<open>text\<close>: inside the
  script, \<open>text.value = ...\<close> throws a ReferenceError before its right-hand side is
  evaluated. The field \<open>text_ref\<close> of the state is never read or written here.
\<close>

definition get_list_v1 :: "panel \<Rightarrow> panel" where
  "get_list_v1 s =
     (let s1 = s\<lparr>issued := issued s @ [Invoke ''fetch_server_ip'']\<rparr>;
          camera_url = ''http://'' @ template (server_ip s1) @ '':8000/v1/cameras''
      in s1\<lparr>issued := issued s1 @
            [Fetch \<lparr>http_method = ''GET'', url = camera_url,
                    headers = [(''Authorization'', basic_credential)],
                    timeout_ms = None\<rparr>]\<rparr>)"

text \<open>The callback \<open>(body) => {...}\<close>: its first statement is \<open>text.value = ...\<close>.\<close>

definition on_body_v1 :: "json \<Rightarrow> panel \<Rightarrow> panel \<times> js_error option" where
  "on_body_v1 body s = (s, Some ReferenceError)"

text \<open>\<open>.catch(error => { text.value = error; })\<close> throws in turn; nothing catches that.\<close>

definition on_error_v1 :: "js_error \<Rightarrow> panel \<Rightarrow> panel" where
  "on_error_v1 error s = s\<lparr>unhandled := unhandled s @ [ReferenceError]\<rparr>"

definition get_list_settled_v1 :: "fetch_result \<Rightarrow> panel \<Rightarrow> panel" where
  "get_list_settled_v1 r s =
     (case r of
        Rejected e \<Rightarrow> on_error_v1 e s
      | Fulfilled res \<Rightarrow>
          (case json_body res of
             Rejected e \<Rightarrow> on_error_v1 e s
           | Fulfilled body \<Rightarrow>
               (case on_body_v1 body s of
                  (s', None) \<Rightarrow> s'
                | (s', Some e) \<Rightarrow> on_error_v1 e s')))"

definition refresh_list_v1 :: "panel \<Rightarrow> panel" where
  "refresh_list_v1 s =
     s\<lparr>issued := issued s @
         [Fetch \<lparr>http_method = ''POST'',
                 url = ''http://'' @ template (server_ip s) @ '':8000/v1/cameras/reconnect'',
                 headers = [(''Authorization'', basic_credential)],
                 timeout_ms = None\<rparr>]\<rparr>"

definition refresh_list_settled_v1 :: "fetch_result \<Rightarrow> panel \<Rightarrow> panel" where
  "refresh_list_settled_v1 r s =
     (case r of
        Rejected e \<Rightarrow> s\<lparr>unhandled := unhandled s @ [e]\<rparr>
      | Fulfilled _ \<Rightarrow> get_list_v1 s)"

text \<open>
  The pan handlers of this file address the camera itself, without a scheme, and two of
  them misspell the header name; \<open>issued\<close> records the call as written.
\<close>

definition cam_right_v1 :: "string \<Rightarrow> panel \<Rightarrow> panel" where
  "cam_right_v1 ip s =
     s\<lparr>issued := issued s @
         [Fetch \<lparr>http_method = ''POST'',
                 url = ip @ '':8000/v1/camera?ip='' @ ip @ ''&x_movement=0.2&y_movement=0'',
                 headers = [(''Authorization'', basic_credential)],
                 timeout_ms = None\<rparr>]\<rparr>"

definition cam_left_v1 :: "string \<Rightarrow> panel \<Rightarrow> panel" where
  "cam_left_v1 ip s =
     s\<lparr>issued := issued s @
         [Fetch \<lparr>http_method = ''POST'',
                 url = ip @ '':8000/v1/camera?ip='' @ ip @ ''&x_movement=-0.2&y_movement=0'',
                 headers = [(''Authorization'', basic_credential)],
                 timeout_ms = None\<rparr>]\<rparr>"

definition cam_up_v1 :: "string \<Rightarrow> panel \<Rightarrow> panel" where
  "cam_up_v1 ip s =
     s\<lparr>issued := issued s @
         [Fetch \<lparr>http_method = ''POST'',
                 url = ip @ '':8000/v1/camera?ip='' @ ip @ ''&x_movement=0&y_movement=0.2'',
                 headers = [(''Atthorization'', basic_credential)],
                 timeout_ms = None\<rparr>]\<rparr>"

definition cam_down_v1 :: "string \<Rightarrow> panel \<Rightarrow> panel" where
  "cam_down_v1 ip s =
     s\<lparr>issued := issued s @
         [Fetch \<lparr>http_method = ''POST'',
                 url = ip @ '':8000/v1/camera?ip='' @ ip @ ''&x_movement=0&y_movement=-0.2'',
                 headers = [(''Authorization  '', basic_credential)],
                 timeout_ms = None\<rparr>]\<rparr>"

fun step_v1 :: "panel \<Rightarrow> event \<Rightarrow> panel" where
  "step_v1 s GetList = get_list_v1 s"
| "step_v1 s RefreshList = refresh_list_v1 s"
| "step_v1 s (ServerIpResolved ip) = fetch_server_ip_then ip s"
| "step_v1 s (GetListSettled r) = get_list_settled_v1 r s"
| "step_v1 s (ReconnectSettled r) = refresh_list_settled_v1 r s"
| "step_v1 s (CamRight ip) = cam_right_v1 ip s"
| "step_v1 s (CamLeft ip) = cam_left_v1 ip s"
| "step_v1 s (CamUp ip) = cam_up_v1 ip s"
| "step_v1 s (CamDown ip) = cam_down_v1 ip s"
| "step_v1 s (ServerIpRejected e) = fetch_server_ip_rejected e s"
| "step_v1 s (PanSettled r) = pan_settled r s"

definition run_v1 :: "panel \<Rightarrow> event list \<Rightarrow> panel" where
  "run_v1 = foldl step_v1"

section \<open>The camera panel of the React shell (src/unnamed/part\_000, lines 12--19)\<close>

text \<open>The \<open>onClick\<close> handlers of the two buttons: one \<open>fetch\<close> each, all literals.\<close>

definition camera_panel_left :: request where
  "camera_panel_left =
     \<lparr>http_method = ''POST'',
      url = ''http://192.168.1.5:8000/v1/camera?ip=192.168.1.6&x_movement=0.2&y_movement=0.0'',
      headers = [(''Authorization'', basic_credential)],
      timeout_ms = None\<rparr>"

definition camera_panel_right :: request where
  "camera_panel_right =
     \<lparr>http_method = ''POST'',
      url = ''http://192.168.1.5:8000/v1/camera?ip=192.168.1.6&x_movement=-0.2&y_movement=0.0'',
      headers = [(''Authorization'', basic_credential)],
      timeout_ms = None\<rparr>"

section \<open>Vocabulary of the properties\<close>

text \<open>
  The requests of the interface table of the specification (section 6): the control plane
  is \<open>http://{serverAddress}:8000\<close>, and each request carries the fixed credential.
\<close>

definition list_cameras_request :: "string \<Rightarrow> request" where
  "list_cameras_request host =
     \<lparr>http_method = ''GET'', url = ''http://'' @ host @ '':8000/v1/cameras'',
      headers = [(''Authorization'', basic_credential)], timeout_ms = None\<rparr>"

definition reconnect_request :: "string \<Rightarrow> request" where
  "reconnect_request host =
     \<lparr>http_method = ''POST'', url = ''http://'' @ host @ '':8000/v1/cameras/reconnect'',
      headers = [(''Authorization'', basic_credential)], timeout_ms = None\<rparr>"

definition pan_request :: "string \<Rightarrow> string \<Rightarrow> string \<Rightarrow> string \<Rightarrow> request" where
  "pan_request host ip x y =
     \<lparr>http_method = ''POST'',
      url = ''http://'' @ host @ '':8000/v1/camera?ip='' @ ip @ ''&x_movement='' @ x
            @ ''&y_movement='' @ y,
      headers = [(''Authorization'', basic_credential)], timeout_ms = None\<rparr>"

text \<open>A call to the outside carries the credential (an \<open>invoke\<close> is not an HTTP request).\<close>

fun authorized :: "effect \<Rightarrow> bool" where
  "authorized (Fetch r) = (map_of (headers r) ''Authorization'' = Some basic_credential)"
| "authorized (Invoke c) = True"
| "authorized (InvokeWith c key v) = True"

text \<open>
  The error a directory refresh ends with, if any: the fetch rejects, \<open>res.json()\<close>
  rejects, the body is \<open>null\<close>, or \<open>body.cameras\<close> is not an array.
\<close>

fun failure :: "fetch_result \<Rightarrow> js_error option" where
  "failure (Rejected e) = Some e"
| "failure (Fulfilled res) =
     (case json_body res of
        Rejected e \<Rightarrow> Some e
      | Fulfilled body \<Rightarrow>
          (case get_prop body ''cameras'' of
             Inl e \<Rightarrow> Some e
           | Inr (Some (JArr elements)) \<Rightarrow> None
           | Inr _ \<Rightarrow> Some TypeError))"

text \<open>The address the latest resolved \<open>fetch_server_ip\<close> of a history delivered.\<close>

fun last_resolved :: "event list \<Rightarrow> string option" where
  "last_resolved [] = None"
| "last_resolved (ServerIpResolved ip # evs) =
     (case last_resolved evs of None \<Rightarrow> Some ip | Some ip' \<Rightarrow> Some ip')"
| "last_resolved (e # evs) = last_resolved evs"

text \<open>The events that belong to a directory refresh.\<close>

fun refresh_event :: "event \<Rightarrow> bool" where
  "refresh_event GetList = True"
| "refresh_event (GetListSettled r) = True"
| "refresh_event (ReconnectSettled r) = True"
| "refresh_event e = False"

text \<open>The events of the server bar that neither edit the address nor deliver an answer.\<close>

fun bar_idle :: "bar_event \<Rightarrow> bool" where
  "bar_idle Tick = True"
| "bar_idle (InputEnabled b) = True"
| "bar_idle e = False"

text \<open>A health answer with a message.\<close>

definition health_ok :: "string \<Rightarrow> health_response settled" where
  "health_ok m =
     Fulfilled \<lparr>ok = True, health_status = 200,
                parsed = Fulfilled (JObj [(''message'', JStr m)])\<rparr>"

text \<open>The example of the specification: one camera, and a discovery response listing cameras.\<close>

definition cam1 :: json where
  "cam1 = JObj [(''hostname'', JStr ''cam1''), (''ip'', JStr ''10.0.0.6''),
                (''stream_path'', JStr ''/cam1/'')]"

definition discovery :: "json list \<Rightarrow> fetch_result" where
  "discovery cams =
     Fulfilled \<lparr>status = 200, json_body = Fulfilled (JObj [(''cameras'', JArr cams)])\<rparr>"

section \<open>Properties\<close>

subsection \<open>Auxiliary facts\<close>

lemma btoa_credential: "btoa ''admin:propteambestteam'' = ''YWRtaW46cHJvcHRlYW1iZXN0dGVhbQ==''"
  by (simp add: btoa_def b64_char_def b64_alphabet_def)

lemmas handler_defs =
  get_list_v2_def fetch_server_ip_then_def on_body_v2_def on_error_v2_def
  get_list_settled_v2_def refresh_list_v2_def refresh_list_settled_v2_def
  cam_right_v2_def cam_left_v2_def cam_up_v2_def cam_down_v2_def
  fetch_server_ip_rejected_def pan_settled_def

lemmas handler_v1_defs =
  get_list_v1_def fetch_server_ip_then_def on_body_v1_def on_error_v1_def
  get_list_settled_v1_def refresh_list_v1_def refresh_list_settled_v1_def
  cam_right_v1_def cam_left_v1_def cam_up_v1_def cam_down_v1_def
  fetch_server_ip_rejected_def pan_settled_def

lemma push_each_append: "push_each a es = a @ es"
  by (induction es arbitrary: a) simp_all

lemma settled_failure_v2:
  assumes "failure r = Some e"
  shows "get_list_settled_v2 r s = s\<lparr>text_ref := Thrown e,
           cameras := (case r of Fulfilled res \<Rightarrow> (case json_body res of Fulfilled body \<Rightarrow>
              (case get_prop body ''cameras'' of Inr c \<Rightarrow> c | Inl x \<Rightarrow> cameras s) | Rejected x \<Rightarrow> cameras s) | Rejected x \<Rightarrow> cameras s)\<rparr>"
  using assms
  by (auto simp: get_list_settled_v2_def on_body_v2_def on_error_v2_def Let_def
           split: settled.splits sum.splits option.splits json.splits)

lemma settled_success_v2:
  assumes "r = Fulfilled res" "json_body res = Fulfilled body"
    "get_prop body ''cameras'' = Inr (Some (JArr elements))"
  shows "get_list_settled_v2 r s =
           s\<lparr>cameras := Some (JArr elements), arr := arr s @ elements,
             text_ref := Str ''Cameras Loaded Successfully''\<rparr>"
  using assms
  by (simp add: get_list_settled_v2_def on_body_v2_def Let_def push_each_append)

lemma quiet_step_arr: "\<not> refresh_event e \<Longrightarrow> arr (step_v2 s e) = arr s"
  by (cases e) (simp_all add: handler_defs Let_def split: settled.splits)

lemma quiet_run_arr: "list_all (\<lambda>e. \<not> refresh_event e) evs \<Longrightarrow> arr (run_v2 s evs) = arr s"
  unfolding run_v2_def
  by (induction evs arbitrary: s) (simp_all add: quiet_step_arr)

lemma step_server_ip_v2:
  "server_ip (step_v2 s e) = (case e of ServerIpResolved ip \<Rightarrow> Some ip | _ \<Rightarrow> server_ip s)"
  by (cases e)
     (auto simp: handler_defs Let_def split: settled.splits sum.splits option.splits json.splits)

lemma run_server_ip_v2:
  "server_ip (run_v2 s evs) = (case last_resolved evs of None \<Rightarrow> server_ip s | Some ip \<Rightarrow> Some ip)"
  unfolding run_v2_def
proof (induction evs arbitrary: s)
  case Nil
  show ?case by simp
next
  case (Cons e evs)
  show ?case
    using Cons.IH [of "step_v2 s e"] step_server_ip_v2 [of s e]
    by (cases e) (simp_all split: option.splits)
qed

lemma step_authorized_v2: "list_all authorized (issued s) \<Longrightarrow> list_all authorized (issued (step_v2 s e))"
  by (cases e)
     (auto simp: handler_defs Let_def split: settled.splits sum.splits option.splits json.splits)

lemma run_authorized_v2: "list_all authorized (issued s) \<Longrightarrow> list_all authorized (issued (run_v2 s evs))"
  unfolding run_v2_def
  by (induction evs arbitrary: s) (simp_all add: step_authorized_v2)

lemmas request_defs = list_cameras_request_def reconnect_request_def pan_request_def

lemma get_list_issued_v2:
  "issued (get_list_v2 s) =
     issued s @ [Invoke ''fetch_server_ip'', Fetch (list_cameras_request (template (server_ip s)))]"
  by (simp add: get_list_v2_def Let_def request_defs)

lemma get_list_issued_v1:
  "issued (get_list_v1 s) =
     issued s @ [Invoke ''fetch_server_ip'', Fetch (list_cameras_request (template (server_ip s)))]"
  by (simp add: get_list_v1_def Let_def request_defs)

lemma step_server_ip_v1:
  "server_ip (step_v1 s e) = (case e of ServerIpResolved ip \<Rightarrow> Some ip | _ \<Rightarrow> server_ip s)"
  by (cases e)
     (auto simp: handler_v1_defs Let_def split: settled.splits sum.splits option.splits json.splits)

lemma run_server_ip_v1:
  "server_ip (run_v1 s evs) = (case last_resolved evs of None \<Rightarrow> server_ip s | Some ip \<Rightarrow> Some ip)"
  unfolding run_v1_def
proof (induction evs arbitrary: s)
  case Nil
  show ?case by simp
next
  case (Cons e evs)
  show ?case
    using Cons.IH [of "step_v1 s e"] step_server_ip_v1 [of s e]
    by (cases e) (simp_all split: option.splits)
qed

lemma run_snoc_v2: "run_v2 s (evs @ [e]) = step_v2 (run_v2 s evs) e"
  by (simp add: run_v2_def)

lemma run_snoc_v1: "run_v1 s (evs @ [e]) = step_v1 (run_v1 s evs) e"
  by (simp add: run_v1_def)

lemma last_resolved_init_v2: "server_ip (run_v2 panel_init evs) = last_resolved evs"
  by (simp add: run_server_ip_v2 panel_init_def split: option.splits)

lemma last_resolved_init_v1: "server_ip (run_v1 panel_init evs) = last_resolved evs"
  by (simp add: run_server_ip_v1 panel_init_def split: option.splits)

lemma run_refresh_v2:
  "run_v2 s (GetList # evs @ [e]) = step_v2 (run_v2 (get_list_v2 s) evs) e"
  by (simp add: run_v2_def)

lemma quiet_after_call_v2:
  "list_all (\<lambda>e. \<not> refresh_event e) evs \<Longrightarrow> arr (run_v2 (get_list_v2 s) evs) = []"
  using quiet_run_arr [of evs "get_list_v2 s"]
  by (simp add: get_list_v2_def Let_def)

lemma step_arr_v1: "arr (step_v1 s e) = arr s"
  by (cases e) (simp_all add: handler_v1_defs Let_def split: settled.splits)

lemma run_arr_v1: "arr (run_v1 s evs) = arr s"
  unfolding run_v1_def
  by (induction evs arbitrary: s) (simp_all add: step_arr_v1)

lemma bar_idle_step:
  assumes "bar_idle e" and "ip_address s = ''''" and "server_status s = Literal ''Ip Not Set''"
  shows "ip_address (bar_step s e) = '''' \<and> server_status (bar_step s e) = Literal ''Ip Not Set''
    \<and> bar_log (bar_step s e) = bar_log s"
  using assms by (cases e) (simp_all add: fetchServerHealth_def)

lemma bar_idle_run:
  assumes "list_all bar_idle evs" and "ip_address s = ''''"
    and "server_status s = Literal ''Ip Not Set''"
  shows "ip_address (bar_run s evs) = '''' \<and> server_status (bar_run s evs) = Literal ''Ip Not Set''
    \<and> bar_log (bar_run s evs) = bar_log s"
  using assms unfolding bar_run_def
proof (induction evs arbitrary: s)
  case Nil
  then show ?case by simp
next
  case (Cons e evs)
  from Cons.prems have idle: "bar_idle e" and rest: "list_all bar_idle evs"
    by simp_all
  note st = bar_idle_step [OF idle Cons.prems(2) Cons.prems(3)]
  from Cons.IH [OF rest, of "bar_step s e"] st show ?case
    by simp
qed

subsection \<open>The health monitor\<close>

text \<open>
  C6, as stated, fails. When the bar is mounted the address is empty and the status is
  the empty string, until the first tick a second later. And once a probe of
  10.0.0.5 has answered "ok", clearing the address field leaves the address empty with
  the status still "ok", until the next tick.
\<close>

theorem C6_counterexample:
  "ip_address server_bar_init = ''''
   \<and> server_status server_bar_init = Literal ''''
   \<and> server_status server_bar_init \<noteq> Literal ''Ip Not Set''
   \<and> ip_address (bar_run server_bar_init
        [InputAddress ''10.0.0.5'', InputEnabled True, Tick, ProbeSettled (health_ok ''ok''),
         InputAddress '''']) = ''''
   \<and> server_status (bar_run server_bar_init
        [InputAddress ''10.0.0.5'', InputEnabled True, Tick, ProbeSettled (health_ok ''ok''),
         InputAddress '''']) = Message (Some (JStr ''ok''))"
  by (simp add: bar_run_def server_bar_init_def fetchServerHealth_def health_settled_def
        health_ok_def get_own_def)

text \<open>
  C6, amended. At every tick of the health monitor that finds the server address empty,
  the status is set to "Ip Not Set" for both values of the health-check flag (the
  empty-address branch comes before the disabled branch) and no probe is started; the
  status then stays "Ip Not Set" through further ticks and changes of the flag, that
  is, until the address field is edited or the answer of an earlier probe arrives.
\<close>

theorem C6_empty_address_unset:
  assumes "list_all bar_idle evs"
  shows "server_status
           (bar_run (s\<lparr>ip_address := '''', health_check_enabled := en\<rparr>) (Tick # evs))
         = Literal ''Ip Not Set''
    \<and> bar_log (bar_run (s\<lparr>ip_address := '''', health_check_enabled := en\<rparr>) (Tick # evs))
         = bar_log s
    \<and> server_status (fetchServerHealth (s\<lparr>ip_address := '''', health_check_enabled := en\<rparr>))
         = Literal ''Ip Not Set''
    \<and> bar_log (fetchServerHealth (s\<lparr>ip_address := '''', health_check_enabled := en\<rparr>))
         = bar_log s"
proof -
  let ?t = "fetchServerHealth (s\<lparr>ip_address := '''', health_check_enabled := en\<rparr>)"
  have tick: "ip_address ?t = ''''" "server_status ?t = Literal ''Ip Not Set''"
      "bar_log ?t = bar_log s"
    by (simp_all add: fetchServerHealth_def)
  have run: "bar_run (s\<lparr>ip_address := '''', health_check_enabled := en\<rparr>) (Tick # evs)
      = bar_run ?t evs"
    by (simp add: bar_run_def)
  from bar_idle_run [OF assms tick(1) tick(2)] tick run show ?thesis
    by simp
qed

text \<open>
  C6, amended, at a tick with the flag off followed by the flag going on, a second tick
  and the flag going off again, and at a single tick with the flag on.
\<close>

theorem C6_empty_address_unset_witness:
  "list_all bar_idle [InputEnabled True, Tick, InputEnabled False]
   \<and> server_status
       (bar_run (server_bar_init\<lparr>ip_address := '''', health_check_enabled := False\<rparr>)
          (Tick # [InputEnabled True, Tick, InputEnabled False]))
       = Literal ''Ip Not Set''
   \<and> server_status
       (fetchServerHealth (server_bar_init\<lparr>ip_address := '''', health_check_enabled := True\<rparr>))
       = Literal ''Ip Not Set''"
proof -
  have h: "list_all bar_idle [InputEnabled True, Tick, InputEnabled False]"
    by simp
  show ?thesis
    using C6_empty_address_unset [OF h, where s = server_bar_init and en = False]
      C6_empty_address_unset [OF h, where s = server_bar_init and en = True] h
    by simp
qed

subsection \<open>Directory refresh\<close>

text \<open>
  C1, as stated, fails. With one camera held after a successful discovery, a second
  \<open>get_list\<close> whose fetch rejects leaves the displayed sequence \<open>arr\<close> empty, not equal
  to what was held before the call: the second implementation empties \<open>arr\<close> when the
  call begins.
\<close>

theorem C1_counterexample:
  "arr (run_v2 panel_init
      [GetList, ServerIpResolved ''10.0.0.5'', GetListSettled (discovery [cam1])]) = [cam1]
   \<and> arr (run_v2 panel_init
      [GetList, ServerIpResolved ''10.0.0.5'', GetListSettled (discovery [cam1]),
       GetList, ServerIpResolved ''10.0.0.5'', GetListSettled (Rejected NetworkError)]) = []"
  by (simp add: run_v2_def panel_init_def handler_defs discovery_def get_own_def Let_def)

text \<open>
  C1, amended. For every \<open>get_list\<close> of the second implementation whose fetch or body
  handling fails with error \<open>e\<close>, with no other refresh call or settlement between its
  call and its settlement, the displayed sequence \<open>arr\<close> is empty afterwards whatever
  it held before, and \<open>e\<close> is stored in \<open>text\<close> for display. In any state the failing
  chain itself leaves \<open>arr\<close> as it finds it, stores \<open>e\<close> in \<open>text\<close> and leaves
  nothing unhandled. In the first implementation, which never empties \<open>arr\<close>, such a
  failing refresh leaves \<open>arr\<close> unchanged.
\<close>

theorem C1_failed_refresh:
  assumes "failure r = Some e"
    and "list_all (\<lambda>e. \<not> refresh_event e) evs"
  shows "arr (run_v2 s (GetList # evs @ [GetListSettled r])) = []
    \<and> text_ref (run_v2 s (GetList # evs @ [GetListSettled r])) = Thrown e
    \<and> arr (get_list_settled_v2 r s) = arr s
    \<and> text_ref (get_list_settled_v2 r s) = Thrown e
    \<and> unhandled (get_list_settled_v2 r s) = unhandled s
    \<and> arr (run_v1 s (GetList # evs @ [GetListSettled r])) = arr s"
proof -
  have a: "arr (get_list_settled_v2 r s') = arr s'"
      "text_ref (get_list_settled_v2 r s') = Thrown e"
      "unhandled (get_list_settled_v2 r s') = unhandled s'" for s'
    by (simp_all add: settled_failure_v2 [OF assms(1)])
  have b: "arr (run_v2 (get_list_v2 s) evs) = []"
    by (rule quiet_after_call_v2 [OF assms(2)])
  show ?thesis
    by (simp add: run_refresh_v2 a b run_arr_v1)
qed

text \<open>
  C1, amended, at a rejected fetch with one camera held before the call, an address
  resolution and a pan command falling between the call and the rejection.
\<close>

theorem C1_failed_refresh_witness:
  "failure (Rejected NetworkError) = Some NetworkError
   \<and> list_all (\<lambda>e. \<not> refresh_event e) [ServerIpResolved ''10.0.0.5'', CamUp ''10.0.0.6'']
   \<and> arr (run_v2 (panel_init\<lparr>arr := [cam1]\<rparr>)
        (GetList # [ServerIpResolved ''10.0.0.5'', CamUp ''10.0.0.6''] @
         [GetListSettled (Rejected NetworkError)])) = []
   \<and> text_ref (run_v2 (panel_init\<lparr>arr := [cam1]\<rparr>)
        (GetList # [ServerIpResolved ''10.0.0.5'', CamUp ''10.0.0.6''] @
         [GetListSettled (Rejected NetworkError)])) = Thrown NetworkError"
proof -
  have h1: "failure (Rejected NetworkError) = Some NetworkError"
    by simp
  have h2: "list_all (\<lambda>e. \<not> refresh_event e) [ServerIpResolved ''10.0.0.5'', CamUp ''10.0.0.6'']"
    by simp
  show ?thesis
    using C1_failed_refresh [OF h1 h2, of "panel_init\<lparr>arr := [cam1]\<rparr>"] h1 h2
    by simp
qed

text \<open>
  C4, as stated, fails. Two \<open>get_list\<close> calls made before either response arrives both
  empty \<open>arr\<close> first; the two successful responses then append one after the other, and
  the displayed sequence holds the camera of the discovery twice.
\<close>

theorem C4_counterexample:
  "arr (run_v2 panel_init
      [GetList, GetList, GetListSettled (discovery [cam1]), GetListSettled (discovery [cam1])])
   = [cam1, cam1]"
  by (simp add: run_v2_def panel_init_def handler_defs discovery_def get_own_def Let_def)

text \<open>
  C4, amended. In the second implementation, for every successful directory refresh with
  no other refresh call or settlement between its call and its settlement, the displayed
  sequence \<open>arr\<close> afterwards is exactly the \<open>cameras\<close> array of the response body, in
  the order returned, whatever was held before; \<open>cameras.value\<close> is that array and the
  success message is displayed. The settlement itself appends the array to what \<open>arr\<close>
  holds at that moment.
\<close>

theorem C4_wholesale_replacement:
  assumes "json_body res = Fulfilled body"
    and "get_prop body ''cameras'' = Inr (Some (JArr elements))"
    and "list_all (\<lambda>e. \<not> refresh_event e) evs"
  shows "arr (run_v2 s (GetList # evs @ [GetListSettled (Fulfilled res)])) = elements
    \<and> cameras (run_v2 s (GetList # evs @ [GetListSettled (Fulfilled res)]))
        = Some (JArr elements)
    \<and> text_ref (run_v2 s (GetList # evs @ [GetListSettled (Fulfilled res)]))
        = Str ''Cameras Loaded Successfully''
    \<and> arr (get_list_settled_v2 (Fulfilled res) s) = arr s @ elements"
proof -
  let ?mid = "run_v2 (get_list_v2 s) evs"
  have run: "run_v2 s (GetList # evs @ [GetListSettled (Fulfilled res)]) =
      get_list_settled_v2 (Fulfilled res) ?mid"
    by (simp add: run_v2_def)
  have mid: "arr ?mid = []"
    using quiet_run_arr [OF assms(3), of "get_list_v2 s"]
    by (simp add: get_list_v2_def Let_def)
  have settled: "get_list_settled_v2 (Fulfilled res) s' =
      s'\<lparr>cameras := Some (JArr elements), arr := arr s' @ elements,
         text_ref := Str ''Cameras Loaded Successfully''\<rparr>" for s'
    using settled_success_v2 [OF refl assms(1) assms(2)] .
  show ?thesis
    by (simp add: run settled mid)
qed

text \<open>
  C4, amended, at a refresh over a panel that held two stale records, with an address
  resolution and a pan command falling between the call and the response.
\<close>

theorem C4_wholesale_replacement_witness:
  "json_body \<lparr>status = 200, json_body = Fulfilled (JObj [(''cameras'', JArr [cam1])])\<rparr>
     = Fulfilled (JObj [(''cameras'', JArr [cam1])])
   \<and> get_prop (JObj [(''cameras'', JArr [cam1])]) ''cameras'' = Inr (Some (JArr [cam1]))
   \<and> list_all (\<lambda>e. \<not> refresh_event e) [ServerIpResolved ''10.0.0.5'', CamUp ''10.0.0.6'']
   \<and> arr (run_v2 (panel_init\<lparr>arr := [JNull, cam1]\<rparr>)
        (GetList # [ServerIpResolved ''10.0.0.5'', CamUp ''10.0.0.6''] @
         [GetListSettled (Fulfilled
            \<lparr>status = 200, json_body = Fulfilled (JObj [(''cameras'', JArr [cam1])])\<rparr>)]))
       = [cam1]"
proof -
  have h1: "json_body \<lparr>status = 200, json_body = Fulfilled (JObj [(''cameras'', JArr [cam1])])\<rparr>
     = Fulfilled (JObj [(''cameras'', JArr [cam1])])"
    by simp
  have h2: "get_prop (JObj [(''cameras'', JArr [cam1])]) ''cameras'' = Inr (Some (JArr [cam1]))"
    by (simp add: get_own_def)
  have h3: "list_all (\<lambda>e. \<not> refresh_event e) [ServerIpResolved ''10.0.0.5'', CamUp ''10.0.0.6'']"
    by simp
  show ?thesis
    using C4_wholesale_replacement [OF h1 h2 h3, of "panel_init\<lparr>arr := [JNull, cam1]\<rparr>"] h1 h2 h3
    by simp
qed

text \<open>
  C8, as stated, fails. A well-formed body without a \<open>cameras\<close> field makes
  \<open>body.cameras.forEach\<close> throw: the refresh ends with a TypeError in \<open>text\<close>, not
  with the success message.
\<close>

theorem C8_counterexample:
  "text_ref (run_v2 panel_init
      [GetList, ServerIpResolved ''10.0.0.5'',
       GetListSettled (Fulfilled \<lparr>status = 200, json_body = Fulfilled (JObj [])\<rparr>)])
   = Thrown TypeError"
  by (simp add: run_v2_def panel_init_def handler_defs get_own_def Let_def)

text \<open>
  C8, amended. In the second implementation, with no other refresh call or settlement
  between the call and its settlement, a directory refresh whose body holds an empty
  \<open>cameras\<close> array ends with an empty displayed sequence, \<open>cameras.value\<close> the empty
  array, and the success message; a refresh whose body has no \<open>cameras\<close> field ends
  with an empty displayed sequence, \<open>cameras.value\<close> undefined, and a TypeError
  displayed in \<open>text\<close>.
\<close>

theorem C8_empty_or_missing_cameras:
  assumes "json_body res = Fulfilled body"
    and "list_all (\<lambda>e. \<not> refresh_event e) evs"
  shows "(get_prop body ''cameras'' = Inr (Some (JArr [])) \<longrightarrow>
            arr (run_v2 s (GetList # evs @ [GetListSettled (Fulfilled res)])) = []
          \<and> cameras (run_v2 s (GetList # evs @ [GetListSettled (Fulfilled res)]))
              = Some (JArr [])
          \<and> text_ref (run_v2 s (GetList # evs @ [GetListSettled (Fulfilled res)]))
              = Str ''Cameras Loaded Successfully'')
    \<and> (get_prop body ''cameras'' = Inr None \<longrightarrow>
            arr (run_v2 s (GetList # evs @ [GetListSettled (Fulfilled res)])) = []
          \<and> cameras (run_v2 s (GetList # evs @ [GetListSettled (Fulfilled res)])) = None
          \<and> text_ref (run_v2 s (GetList # evs @ [GetListSettled (Fulfilled res)]))
              = Thrown TypeError)"
proof -
  have b: "arr (run_v2 (get_list_v2 s) evs) = []"
    by (rule quiet_after_call_v2 [OF assms(2)])
  show ?thesis
    using assms(1) b
    by (simp add: run_refresh_v2 get_list_settled_v2_def on_body_v2_def on_error_v2_def Let_def)
qed

text \<open>
  C8, amended, at a body with an empty \<open>cameras\<close> array and at a body with another
  field only, one camera held before each call, an address resolution and a pan command
  falling between the call and the response.
\<close>

theorem C8_empty_or_missing_cameras_witness:
  "get_prop (JObj [(''cameras'', JArr [])]) ''cameras'' = Inr (Some (JArr []))
   \<and> get_prop (JObj [(''count'', JNum 0)]) ''cameras'' = Inr None
   \<and> list_all (\<lambda>e. \<not> refresh_event e) [ServerIpResolved ''10.0.0.5'', CamUp ''10.0.0.6'']
   \<and> arr (run_v2 (panel_init\<lparr>arr := [cam1]\<rparr>)
        (GetList # [ServerIpResolved ''10.0.0.5'', CamUp ''10.0.0.6''] @
         [GetListSettled (discovery [])])) = []
   \<and> text_ref (run_v2 (panel_init\<lparr>arr := [cam1]\<rparr>)
        (GetList # [ServerIpResolved ''10.0.0.5'', CamUp ''10.0.0.6''] @
         [GetListSettled (discovery [])])) = Str ''Cameras Loaded Successfully''
   \<and> arr (run_v2 (panel_init\<lparr>arr := [cam1]\<rparr>)
        (GetList # [ServerIpResolved ''10.0.0.5'', CamUp ''10.0.0.6''] @
         [GetListSettled
            (Fulfilled \<lparr>status = 200, json_body = Fulfilled (JObj [(''count'', JNum 0)])\<rparr>)]))
       = []
   \<and> text_ref (run_v2 (panel_init\<lparr>arr := [cam1]\<rparr>)
        (GetList # [ServerIpResolved ''10.0.0.5'', CamUp ''10.0.0.6''] @
         [GetListSettled
            (Fulfilled \<lparr>status = 200, json_body = Fulfilled (JObj [(''count'', JNum 0)])\<rparr>)]))
       = Thrown TypeError"
proof -
  have e: "get_prop (JObj [(''cameras'', JArr [])]) ''cameras'' = Inr (Some (JArr []))"
    by (simp add: get_own_def)
  have m: "get_prop (JObj [(''count'', JNum 0)]) ''cameras'' = Inr None"
    by (simp add: get_own_def)
  have q: "list_all (\<lambda>e. \<not> refresh_event e) [ServerIpResolved ''10.0.0.5'', CamUp ''10.0.0.6'']"
    by simp
  have b1: "json_body \<lparr>status = 200, json_body = Fulfilled (JObj [(''cameras'', JArr [])])\<rparr>
      = Fulfilled (JObj [(''cameras'', JArr [])])"
    by simp
  have b2: "json_body \<lparr>status = 200, json_body = Fulfilled (JObj [(''count'', JNum 0)])\<rparr>
      = Fulfilled (JObj [(''count'', JNum 0)])"
    by simp
  show ?thesis
    using C8_empty_or_missing_cameras [OF b1 q, of "panel_init\<lparr>arr := [cam1]\<rparr>"]
          C8_empty_or_missing_cameras [OF b2 q, of "panel_init\<lparr>arr := [cam1]\<rparr>"]
          e m q
    by (simp add: discovery_def)
qed

subsection \<open>Reconnect\<close>

text \<open>
  C3, as stated, fails. When the reconnect POST rejects, the \<open>then\<close> callback that calls
  \<open>get_list\<close> is skipped: the reconnect POST is the only call made, no directory
  refresh follows, and the rejection stays unhandled.
\<close>

theorem C3_counterexample:
  "issued (run_v2 panel_init [RefreshList, ReconnectSettled (Rejected NetworkError)]) =
     [Fetch \<lparr>http_method = ''POST'', url = ''http://undefined:8000/v1/cameras/reconnect'',
             headers = [(''Authorization'', basic_credential)], timeout_ms = None\<rparr>]
   \<and> unhandled (run_v2 panel_init [RefreshList, ReconnectSettled (Rejected NetworkError)]) =
     [NetworkError]"
  by (simp add: run_v2_def panel_init_def handler_defs)

text \<open>
  C3, amended. For every invocation of \<open>refresh_list\<close> whose reconnect POST is answered,
  with any response (an error status included), \<open>get_list\<close> is called afterwards: the
  reconnect POST is followed by the \<open>fetch_server_ip\<close> invoke and the camera-list GET.
  When the POST rejects, the reconnect POST is the only call made. Both implementations.
\<close>

theorem C3_refresh_after_reconnect_response:
  "issued (run_v2 s [RefreshList, ReconnectSettled (Fulfilled res)]) =
     issued s @ [Fetch (reconnect_request (template (server_ip s))),
                 Invoke ''fetch_server_ip'',
                 Fetch (list_cameras_request (template (server_ip s)))]
   \<and> issued (run_v1 s [RefreshList, ReconnectSettled (Fulfilled res)]) =
     issued s @ [Fetch (reconnect_request (template (server_ip s))),
                 Invoke ''fetch_server_ip'',
                 Fetch (list_cameras_request (template (server_ip s)))]
   \<and> issued (run_v2 s [RefreshList, ReconnectSettled (Rejected e)]) =
     issued s @ [Fetch (reconnect_request (template (server_ip s)))]
   \<and> issued (run_v1 s [RefreshList, ReconnectSettled (Rejected e)]) =
     issued s @ [Fetch (reconnect_request (template (server_ip s)))]"
  by (simp add: run_v2_def run_v1_def handler_defs handler_v1_defs request_defs Let_def)

subsection \<open>The address a refresh targets\<close>

text \<open>
  C10. In both camera-panel implementations, after any history of events since the panel
  was loaded, \<open>get_list\<close> issues its camera-list request to the address delivered by the
  latest \<open>fetch_server_ip\<close> that resolved before the call (the host "undefined" when
  none did, as in the first refresh after load), and leaves \<open>server_ip\<close> as it found
  it: the invoke it starts itself resolves after the URL was built. The reconnect POST of
  \<open>refresh_list\<close> goes to the same stale address. In the history spelled out, the
  first refresh targets "undefined" although its invoke delivers 10.0.0.5, the second
  targets 10.0.0.5 although its invoke delivers 10.0.0.9, and the reconnect that follows
  targets 10.0.0.9.
\<close>

theorem C10_url_from_stale_server_ip:
  "issued (run_v2 panel_init (evs @ [GetList])) =
     issued (run_v2 panel_init evs) @
       [Invoke ''fetch_server_ip'',
        Fetch (list_cameras_request
                 (case last_resolved evs of None \<Rightarrow> ''undefined'' | Some a \<Rightarrow> a))]
   \<and> issued (run_v1 panel_init (evs @ [GetList])) =
     issued (run_v1 panel_init evs) @
       [Invoke ''fetch_server_ip'',
        Fetch (list_cameras_request
                 (case last_resolved evs of None \<Rightarrow> ''undefined'' | Some a \<Rightarrow> a))]
   \<and> issued (run_v2 panel_init (evs @ [RefreshList])) =
     issued (run_v2 panel_init evs) @
       [Fetch (reconnect_request
                 (case last_resolved evs of None \<Rightarrow> ''undefined'' | Some a \<Rightarrow> a))]
   \<and> issued (run_v1 panel_init (evs @ [RefreshList])) =
     issued (run_v1 panel_init evs) @
       [Fetch (reconnect_request
                 (case last_resolved evs of None \<Rightarrow> ''undefined'' | Some a \<Rightarrow> a))]
   \<and> server_ip (get_list_v2 s) = server_ip s
   \<and> server_ip (get_list_v1 s) = server_ip s
   \<and> issued (run_v2 panel_init
        [GetList, ServerIpResolved ''10.0.0.5'', GetList, ServerIpResolved ''10.0.0.9'',
         RefreshList]) =
       [Invoke ''fetch_server_ip'',
        Fetch \<lparr>http_method = ''GET'', url = ''http://undefined:8000/v1/cameras'',
               headers = [(''Authorization'', basic_credential)], timeout_ms = None\<rparr>,
        Invoke ''fetch_server_ip'',
        Fetch \<lparr>http_method = ''GET'', url = ''http://10.0.0.5:8000/v1/cameras'',
               headers = [(''Authorization'', basic_credential)], timeout_ms = None\<rparr>,
        Fetch \<lparr>http_method = ''POST'', url = ''http://10.0.0.9:8000/v1/cameras/reconnect'',
               headers = [(''Authorization'', basic_credential)], timeout_ms = None\<rparr>]
   \<and> issued (run_v1 panel_init
        [GetList, ServerIpResolved ''10.0.0.5'', GetList, ServerIpResolved ''10.0.0.9'',
         RefreshList]) =
       [Invoke ''fetch_server_ip'',
        Fetch \<lparr>http_method = ''GET'', url = ''http://undefined:8000/v1/cameras'',
               headers = [(''Authorization'', basic_credential)], timeout_ms = None\<rparr>,
        Invoke ''fetch_server_ip'',
        Fetch \<lparr>http_method = ''GET'', url = ''http://10.0.0.5:8000/v1/cameras'',
               headers = [(''Authorization'', basic_credential)], timeout_ms = None\<rparr>,
        Fetch \<lparr>http_method = ''POST'', url = ''http://10.0.0.9:8000/v1/cameras/reconnect'',
               headers = [(''Authorization'', basic_credential)], timeout_ms = None\<rparr>]"
proof -
  have t: "template (last_resolved evs) =
      (case last_resolved evs of None \<Rightarrow> ''undefined'' | Some a \<Rightarrow> a)"
    by (cases "last_resolved evs") simp_all
  have a: "issued (run_v2 panel_init (evs @ [GetList])) =
     issued (run_v2 panel_init evs) @
       [Invoke ''fetch_server_ip'',
        Fetch (list_cameras_request
                 (case last_resolved evs of None \<Rightarrow> ''undefined'' | Some a \<Rightarrow> a))]"
    by (simp add: run_snoc_v2 get_list_issued_v2 last_resolved_init_v2 t)
  have b: "issued (run_v1 panel_init (evs @ [GetList])) =
     issued (run_v1 panel_init evs) @
       [Invoke ''fetch_server_ip'',
        Fetch (list_cameras_request
                 (case last_resolved evs of None \<Rightarrow> ''undefined'' | Some a \<Rightarrow> a))]"
    by (simp add: run_snoc_v1 get_list_issued_v1 last_resolved_init_v1 t)
  have c: "issued (run_v2 panel_init (evs @ [RefreshList])) =
     issued (run_v2 panel_init evs) @
       [Fetch (reconnect_request
                 (case last_resolved evs of None \<Rightarrow> ''undefined'' | Some a \<Rightarrow> a))]"
    by (simp add: run_snoc_v2 refresh_list_v2_def request_defs last_resolved_init_v2 t)
  have d: "issued (run_v1 panel_init (evs @ [RefreshList])) =
     issued (run_v1 panel_init evs) @
       [Fetch (reconnect_request
                 (case last_resolved evs of None \<Rightarrow> ''undefined'' | Some a \<Rightarrow> a))]"
    by (simp add: run_snoc_v1 refresh_list_v1_def request_defs last_resolved_init_v1 t)
  have g: "server_ip (get_list_v2 s) = server_ip s" "server_ip (get_list_v1 s) = server_ip s"
    by (simp_all add: get_list_v2_def get_list_v1_def Let_def)
  have e: "issued (run_v2 panel_init
        [GetList, ServerIpResolved ''10.0.0.5'', GetList, ServerIpResolved ''10.0.0.9'',
         RefreshList]) =
       [Invoke ''fetch_server_ip'',
        Fetch \<lparr>http_method = ''GET'', url = ''http://undefined:8000/v1/cameras'',
               headers = [(''Authorization'', basic_credential)], timeout_ms = None\<rparr>,
        Invoke ''fetch_server_ip'',
        Fetch \<lparr>http_method = ''GET'', url = ''http://10.0.0.5:8000/v1/cameras'',
               headers = [(''Authorization'', basic_credential)], timeout_ms = None\<rparr>,
        Fetch \<lparr>http_method = ''POST'', url = ''http://10.0.0.9:8000/v1/cameras/reconnect'',
               headers = [(''Authorization'', basic_credential)], timeout_ms = None\<rparr>]"
    by (simp add: run_v2_def panel_init_def handler_defs Let_def)
  have f: "issued (run_v1 panel_init
        [GetList, ServerIpResolved ''10.0.0.5'', GetList, ServerIpResolved ''10.0.0.9'',
         RefreshList]) =
       [Invoke ''fetch_server_ip'',
        Fetch \<lparr>http_method = ''GET'', url = ''http://undefined:8000/v1/cameras'',
               headers = [(''Authorization'', basic_credential)], timeout_ms = None\<rparr>,
        Invoke ''fetch_server_ip'',
        Fetch \<lparr>http_method = ''GET'', url = ''http://10.0.0.5:8000/v1/cameras'',
               headers = [(''Authorization'', basic_credential)], timeout_ms = None\<rparr>,
        Fetch \<lparr>http_method = ''POST'', url = ''http://10.0.0.9:8000/v1/cameras/reconnect'',
               headers = [(''Authorization'', basic_credential)], timeout_ms = None\<rparr>]"
    by (simp add: run_v1_def panel_init_def handler_v1_defs Let_def)
  from a b c d g e f show ?thesis by blast
qed

subsection \<open>Pan commands\<close>

text \<open>
  C2, as stated, fails. In the scenario of the specification (server address 10.0.0.5,
  discovery returning cam1 at 10.0.0.6), pressing \<open>left\<close> for cam1 issues one POST with
  \<open>x_movement=0.2\<close>, not \<open>x_movement=-0.2\<close>.
\<close>

theorem C2_counterexample:
  "issued (run_v2 panel_init
      [GetList, ServerIpResolved ''10.0.0.5'', GetListSettled (discovery [cam1]),
       GetList, GetListSettled (discovery [cam1]), CamLeft ''10.0.0.6'']) =
   issued (run_v2 panel_init
      [GetList, ServerIpResolved ''10.0.0.5'', GetListSettled (discovery [cam1]),
       GetList, GetListSettled (discovery [cam1])]) @
     [Fetch \<lparr>http_method = ''POST'',
             url = ''http://10.0.0.5:8000/v1/camera?ip=10.0.0.6&x_movement=0.2&y_movement=0'',
             headers = [(''Authorization'', basic_credential)], timeout_ms = None\<rparr>]
   \<and> issued (run_v2 panel_init
      [GetList, ServerIpResolved ''10.0.0.5'', GetListSettled (discovery [cam1]),
       GetList, GetListSettled (discovery [cam1]), CamLeft ''10.0.0.6'']) \<noteq>
   issued (run_v2 panel_init
      [GetList, ServerIpResolved ''10.0.0.5'', GetListSettled (discovery [cam1]),
       GetList, GetListSettled (discovery [cam1])]) @
     [Fetch \<lparr>http_method = ''POST'',
             url = ''http://10.0.0.5:8000/v1/camera?ip=10.0.0.6&x_movement=-0.2&y_movement=0'',
             headers = [(''Authorization'', basic_credential)], timeout_ms = None\<rparr>]"
  by (simp add: run_v2_def panel_init_def handler_defs discovery_def cam1_def get_own_def Let_def)

text \<open>
  C2, amended. In the second implementation, for every control address \<open>ip\<close>, pressing
  \<open>left\<close> issues exactly one POST to the control-plane base of the held server address
  with \<open>ip={ip}\<close>, \<open>x_movement=0.2\<close> and \<open>y_movement=0\<close>; \<open>right\<close> issues
  \<open>x_movement=-0.2\<close>; \<open>up\<close> and \<open>down\<close> issue \<open>y_movement=0.2\<close> and
  \<open>y_movement=-0.2\<close> with \<open>x_movement=0\<close>. Each press makes exactly one request, with
  the fixed step 0.2.
\<close>

theorem C2_pan_requests:
  "issued (cam_left_v2 ip s) =
     issued s @ [Fetch (pan_request (template (server_ip s)) ip ''0.2'' ''0'')]
   \<and> issued (cam_right_v2 ip s) =
     issued s @ [Fetch (pan_request (template (server_ip s)) ip ''-0.2'' ''0'')]
   \<and> issued (cam_up_v2 ip s) =
     issued s @ [Fetch (pan_request (template (server_ip s)) ip ''0'' ''0.2'')]
   \<and> issued (cam_down_v2 ip s) =
     issued s @ [Fetch (pan_request (template (server_ip s)) ip ''0'' ''-0.2'')]"
  by (simp add: handler_defs request_defs Let_def)

text \<open>
  C9, as stated, fails. Two refreshes are in flight together; the first answer lists
  cam1, the second lists no camera. The directory snapshot \<open>cameras.value\<close>, replaced
  by each successful discovery, is then empty, while the displayed sequence \<open>arr\<close>
  still holds cam1 with its buttons. Pressing \<open>left\<close> there issues a POST for
  10.0.0.6, and with the POST answered nothing has failed: no error is displayed and no
  rejection is pending.
\<close>

theorem C9_counterexample:
  "cameras (run_v2 panel_init
      [GetList, ServerIpResolved ''10.0.0.5'', GetList, ServerIpResolved ''10.0.0.5'',
       GetListSettled (discovery [cam1]), GetListSettled (discovery [])]) = Some (JArr [])
   \<and> arr (run_v2 panel_init
      [GetList, ServerIpResolved ''10.0.0.5'', GetList, ServerIpResolved ''10.0.0.5'',
       GetListSettled (discovery [cam1]), GetListSettled (discovery [])]) = [cam1]
   \<and> get_prop cam1 ''ip'' = Inr (Some (JStr ''10.0.0.6''))
   \<and> issued (run_v2 panel_init
      [GetList, ServerIpResolved ''10.0.0.5'', GetList, ServerIpResolved ''10.0.0.5'',
       GetListSettled (discovery [cam1]), GetListSettled (discovery []),
       CamLeft ''10.0.0.6'']) =
     issued (run_v2 panel_init
      [GetList, ServerIpResolved ''10.0.0.5'', GetList, ServerIpResolved ''10.0.0.5'',
       GetListSettled (discovery [cam1]), GetListSettled (discovery [])]) @
     [Fetch \<lparr>http_method = ''POST'',
             url = ''http://10.0.0.5:8000/v1/camera?ip=10.0.0.6&x_movement=0.2&y_movement=0'',
             headers = [(''Authorization'', basic_credential)], timeout_ms = None\<rparr>]
   \<and> text_ref (run_v2 panel_init
      [GetList, ServerIpResolved ''10.0.0.5'', GetList, ServerIpResolved ''10.0.0.5'',
       GetListSettled (discovery [cam1]), GetListSettled (discovery []),
       CamLeft ''10.0.0.6'',
       PanSettled (Fulfilled \<lparr>status = 200, json_body = Fulfilled JNull\<rparr>)])
     = Str ''Cameras Loaded Successfully''
   \<and> unhandled (run_v2 panel_init
      [GetList, ServerIpResolved ''10.0.0.5'', GetList, ServerIpResolved ''10.0.0.5'',
       GetListSettled (discovery [cam1]), GetListSettled (discovery []),
       CamLeft ''10.0.0.6'',
       PanSettled (Fulfilled \<lparr>status = 200, json_body = Fulfilled JNull\<rparr>)]) = []"
  by (simp add: run_v2_def panel_init_def handler_defs discovery_def cam1_def get_own_def Let_def)

text \<open>
  C9, amended. A pan command takes the control address from the record its button was
  rendered for and does no lookup: for every command, whether or not a camera with that
  address is in the current directory snapshot, exactly one POST for that address is
  issued, there is no UnknownCamera failure, and \<open>cameras.value\<close>, \<open>arr\<close> and the
  unhandled rejections are left as they were. An answered POST changes nothing; a
  rejected POST stays unhandled.
\<close>

theorem C9_command_without_lookup:
  "issued (step_v2 s (CamLeft ip)) =
     issued s @ [Fetch (pan_request (template (server_ip s)) ip ''0.2'' ''0'')]
   \<and> issued (step_v2 s (CamRight ip)) =
     issued s @ [Fetch (pan_request (template (server_ip s)) ip ''-0.2'' ''0'')]
   \<and> issued (step_v2 s (CamUp ip)) =
     issued s @ [Fetch (pan_request (template (server_ip s)) ip ''0'' ''0.2'')]
   \<and> issued (step_v2 s (CamDown ip)) =
     issued s @ [Fetch (pan_request (template (server_ip s)) ip ''0'' ''-0.2'')]
   \<and> cameras (step_v2 s (CamLeft ip)) = cameras s \<and> arr (step_v2 s (CamLeft ip)) = arr s
   \<and> cameras (step_v2 s (CamRight ip)) = cameras s \<and> arr (step_v2 s (CamRight ip)) = arr s
   \<and> cameras (step_v2 s (CamUp ip)) = cameras s \<and> arr (step_v2 s (CamUp ip)) = arr s
   \<and> cameras (step_v2 s (CamDown ip)) = cameras s \<and> arr (step_v2 s (CamDown ip)) = arr s
   \<and> unhandled (step_v2 s (CamLeft ip)) = unhandled s
   \<and> unhandled (step_v2 s (CamRight ip)) = unhandled s
   \<and> unhandled (step_v2 s (CamUp ip)) = unhandled s
   \<and> unhandled (step_v2 s (CamDown ip)) = unhandled s
   \<and> step_v2 s (PanSettled (Fulfilled res)) = s
   \<and> step_v2 s (PanSettled (Rejected e)) = s\<lparr>unhandled := unhandled s @ [e]\<rparr>"
  by (simp add: handler_defs request_defs Let_def)

subsection \<open>Credentials\<close>

text \<open>
  C5, as stated, fails. The health probe is fetched with a timeout signal and no headers:
  it carries no Authorization header.
\<close>

theorem C5_counterexample:
  "bar_log (fetchServerHealth
      (server_bar_init\<lparr>ip_address := ''10.0.0.5'', health_check_enabled := True\<rparr>))
     = [Fetch \<lparr>http_method = ''GET'', url = ''http://10.0.0.5:8000/health'', headers = [],
               timeout_ms = Some 1000\<rparr>]
   \<and> \<not> list_all authorized
        (bar_log (fetchServerHealth
           (server_bar_init\<lparr>ip_address := ''10.0.0.5'', health_check_enabled := True\<rparr>)))"
  by (simp add: fetchServerHealth_def server_bar_init_def health_request_def)

text \<open>
  C5, amended. Every camera-list, reconnect and pan request the second camera-panel
  implementation issues, in any history of events, and both pan requests of the React
  shell, carry the same fixed Basic credential in an Authorization header; the health
  probe carries no header.
\<close>

theorem C5_camera_requests_authorized:
  "list_all authorized (issued (run_v2 panel_init evs))
   \<and> authorized (Fetch camera_panel_left)
   \<and> authorized (Fetch camera_panel_right)
   \<and> headers (health_request ip) = []"
proof -
  have "list_all authorized (issued (run_v2 panel_init evs))"
    by (rule run_authorized_v2) (simp add: panel_init_def)
  then show ?thesis
    by (simp add: camera_panel_left_def camera_panel_right_def health_request_def)
qed

end
